theory Spec2Isabelle
  imports Main
begin

section \<open>Strings and optional values of the Python source\<close>

text \<open>
  Python strings are modelled as \<^typ>\<open>string\<close>; an \<^verbatim>\<open>Optional[str]\<close> is a
  \<^typ>\<open>string option\<close> with \<^const>\<open>None\<close> for Python's None. The model covers ASCII text:
  \<^verbatim>\<open>str.lower()\<close> is modelled on the letters A to Z and leaves every other character
  as it is. Python's \<^verbatim>\<open>str.lower()\<close> also maps letters outside ASCII (the Kelvin
  sign U+212A becomes \<^verbatim>\<open>k\<close>); a statement that depends on the lower-casing of an
  arbitrary string therefore carries the hypothesis \<open>is_ascii\<close>.
\<close>

definition lower_char :: "char \<Rightarrow> char" where
  "lower_char c =
     (case map_of (zip ''ABCDEFGHIJKLMNOPQRSTUVWXYZ'' ''abcdefghijklmnopqrstuvwxyz'') c of
        None \<Rightarrow> c
      | Some l \<Rightarrow> l)"

definition lower :: "string \<Rightarrow> string" where
  "lower s = map lower_char s"

text \<open>\<^verbatim>\<open>s.lstrip(".")\<close>: the leading dots are removed.\<close>

definition lstrip_dot :: "string \<Rightarrow> string" where
  "lstrip_dot s = dropWhile (\<lambda>c. c = CHR ''.'') s"

text \<open>
  \<^verbatim>\<open>x or ""\<close> for an optional string: None and the empty string both give the empty
  string. An optional string is truthy when it is present and not empty.
\<close>

definition or_empty :: "string option \<Rightarrow> string" where
  "or_empty x = (case x of None \<Rightarrow> [] | Some s \<Rightarrow> s)"

definition truthy :: "string option \<Rightarrow> bool" where
  "truthy x = (or_empty x \<noteq> [])"

text \<open>\<^verbatim>\<open>x or d\<close> where \<^verbatim>\<open>d\<close> is a non-empty string literal.\<close>

definition or_default :: "string option \<Rightarrow> string \<Rightarrow> string option" where
  "or_default x d = (if truthy x then x else Some d)"

section \<open>The compatibility table\<close>

text \<open>
  \<^verbatim>\<open>container_allows_codecs(container, vcodec, acodec)\<close>, lines 86 to 117 of
  \<^verbatim>\<open>universal_transcoder.py\<close>. The three arguments are lower-cased first; the
  container families are tried in the order of the source.
\<close>

definition container_allows_codecs :: "string \<Rightarrow> string option \<Rightarrow> string option \<Rightarrow> bool" where
  "container_allows_codecs container vcodec acodec =
     (let container = lower container;
          v = lower (or_empty vcodec);
          a = lower (or_empty acodec)
      in if container \<in> {''mkv''} then True
         else if container \<in> {''mp4'', ''m4v'', ''mov''} then
           (let v_ok = (v \<in> {''h264'', ''hevc'', ''mpeg4''});
                a_ok = (a \<in> {''aac'', ''mp3'', ''ac3'', ''eac3''} \<or> a = '''')
            in v_ok \<and> a_ok)
         else if container \<in> {''webm''} then
           (let v_ok = (v \<in> {''vp8'', ''vp9''});
                a_ok = (a \<in> {''vorbis'', ''opus''})
            in v_ok \<and> a_ok)
         else if container \<in> {''mpg'', ''mpeg'', ''ts'', ''m2ts''} then
           (let v_ok = (v \<in> {''mpeg1video'', ''mpeg2video''});
                a_ok = (a \<in> {''mp2'', ''mp1'', ''ac3''})
            in v_ok \<and> a_ok)
         else if container \<in> {''avi''} then
           (let v_ok = (v \<in> {''mpeg4'', ''msmpeg4v3'', ''h263'', ''h264''});
                a_ok = (a \<in> {''mp3'', ''ac3'', ''aac''})
            in v_ok \<and> a_ok)
         else False)"

text \<open>\<^verbatim>\<open>default_container_flags(container)\<close>, lines 119 to 124.\<close>

definition default_container_flags :: "string \<Rightarrow> string list" where
  "default_container_flags container =
     (let container = lower container;
          flags = []
      in if container \<in> {''mp4'', ''m4v'', ''mov''}
         then flags @ [''-movflags'', ''+faststart'', ''-pix_fmt'', ''yuv420p'']
         else flags)"

section \<open>The policy selector\<close>

text \<open>
  The command-line values that the policy reads, as \<^verbatim>\<open>argparse\<close> leaves them in
  \<^verbatim>\<open>args\<close>: \<^verbatim>\<open>--quality\<close> and \<^verbatim>\<open>--mode\<close> are strings, the others are None
  unless the user gives them.
\<close>

record args =
  args_quality :: string
  args_mode :: string
  args_vcodec :: "string option"
  args_acodec :: "string option"
  args_crf :: "string option"
  args_preset :: "string option"
  args_audio_bitrate :: "string option"

text \<open>The local variables that \<^verbatim>\<open>main\<close> resolves for one file, lines 288 to 293.\<close>

record policy =
  effective_mode :: string
  vcodec_use :: "string option"
  acodec_use :: "string option"
  crf_use :: "string option"
  preset_use :: "string option"
  abr_use :: "string option"

text \<open>The per-container default codecs, lines 275 and 276, and \<^verbatim>\<open>dict.get(key, default)\<close>.\<close>

definition VCODEC_DEFAULTS :: "(string \<times> string) list" where
  "VCODEC_DEFAULTS =
     [(''mp4'', ''libx264''), (''mkv'', ''libx264''), (''webm'', ''libvpx-vp9''),
      (''avi'', ''libx264''), (''ts'', ''libx264''), (''mpg'', ''libx264'')]"

definition ACODEC_DEFAULTS :: "(string \<times> string) list" where
  "ACODEC_DEFAULTS =
     [(''mp4'', ''aac''), (''mkv'', ''aac''), (''webm'', ''libopus''),
      (''avi'', ''aac''), (''ts'', ''aac''), (''mpg'', ''aac'')]"

definition dict_get :: "(string \<times> string) list \<Rightarrow> string \<Rightarrow> string \<Rightarrow> string" where
  "dict_get d k dflt = (case map_of d k of None \<Rightarrow> dflt | Some v \<Rightarrow> v)"

text \<open>
  The decision of \<^verbatim>\<open>main\<close> for one file, lines 287 to 340: \<^verbatim>\<open>out_ext\<close> is the target
  container as line 254 has normalised it, \<^verbatim>\<open>vcodec\<close> and \<^verbatim>\<open>acodec\<close> are the probed
  codecs. The last branch is the source's \<^verbatim>\<open>else\<close>, reached by \<^verbatim>\<open>custom\<close>.
\<close>

definition policy_selector :: "args \<Rightarrow> string \<Rightarrow> string option \<Rightarrow> string option \<Rightarrow> policy" where
  "policy_selector a out_ext vcodec acodec =
     (let p = \<lparr>effective_mode = ''auto'',
                vcodec_use = args_vcodec a,
                acodec_use = args_acodec a,
                crf_use = args_crf a,
                preset_use = args_preset a,
                abr_use = args_audio_bitrate a\<rparr>
      in if args_quality a = ''auto'' then
           (if container_allows_codecs out_ext vcodec acodec
            then p\<lparr>effective_mode := ''remux''\<rparr>
            else p\<lparr>effective_mode := ''transcode'',
                   vcodec_use := or_default (vcodec_use p) (dict_get VCODEC_DEFAULTS out_ext ''libx264''),
                   acodec_use := or_default (acodec_use p) (dict_get ACODEC_DEFAULTS out_ext ''aac''),
                   crf_use := or_default (crf_use p) ''20'',
                   preset_use := or_default (preset_use p) ''fast'',
                   abr_use := or_default (abr_use p) ''192k''\<rparr>)
         else if args_quality a = ''ultra'' then
           p\<lparr>effective_mode := ''transcode'',
             vcodec_use := or_default (vcodec_use p) (dict_get VCODEC_DEFAULTS out_ext ''libx264''),
             acodec_use := or_default (acodec_use p) (dict_get ACODEC_DEFAULTS out_ext ''aac''),
             crf_use := or_default (crf_use p) ''18'',
             preset_use := or_default (preset_use p) ''slow'',
             abr_use := or_default (abr_use p) ''320k''\<rparr>
         else if args_quality a = ''high'' then
           p\<lparr>effective_mode := ''transcode'',
             vcodec_use := or_default (vcodec_use p) (dict_get VCODEC_DEFAULTS out_ext ''libx264''),
             acodec_use := or_default (acodec_use p) (dict_get ACODEC_DEFAULTS out_ext ''aac''),
             crf_use := or_default (crf_use p) ''19'',
             preset_use := or_default (preset_use p) ''medium'',
             abr_use := or_default (abr_use p) ''256k''\<rparr>
         else if args_quality a = ''balanced'' then
           p\<lparr>effective_mode := ''transcode'',
             vcodec_use := or_default (vcodec_use p) (dict_get VCODEC_DEFAULTS out_ext ''libx264''),
             acodec_use := or_default (acodec_use p) (dict_get ACODEC_DEFAULTS out_ext ''aac''),
             crf_use := or_default (crf_use p) ''21'',
             preset_use := or_default (preset_use p) ''fast'',
             abr_use := or_default (abr_use p) ''192k''\<rparr>
         else if args_quality a = ''fast'' then
           p\<lparr>effective_mode := ''transcode'',
             vcodec_use := or_default (vcodec_use p) (dict_get VCODEC_DEFAULTS out_ext ''libx264''),
             acodec_use := or_default (acodec_use p) (dict_get ACODEC_DEFAULTS out_ext ''aac''),
             crf_use := or_default (crf_use p) ''23'',
             preset_use := or_default (preset_use p) ''veryfast'',
             abr_use := or_default (abr_use p) ''160k''\<rparr>
         else p\<lparr>effective_mode := args_mode a\<rparr>)"

section \<open>The command builder\<close>

text \<open>
  A \<^verbatim>\<open>pathlib.Path\<close> is used through \<^verbatim>\<open>str(p)\<close> and \<^verbatim>\<open>p.suffix\<close> only; both
  are attributes that the library computes, so a path is a record of the two.
\<close>

record path =
  path_str :: string
  path_suffix :: string

text \<open>\<^verbatim>\<open>str(n)\<close> for an integer: decimal digits, with a minus sign below zero.\<close>

definition digit_char :: "nat \<Rightarrow> char" where
  "digit_char d = ''0123456789'' ! d"

function str_nat :: "nat \<Rightarrow> string" where
  "str_nat n = (if n < 10 then [digit_char n] else str_nat (n div 10) @ [digit_char (n mod 10)])"
  by pat_completeness auto
termination
  by (relation "measure (\<lambda>n. n)") auto

declare str_nat.simps [simp del]

definition str_int :: "int \<Rightarrow> string" where
  "str_int i = (if i < 0 then CHR ''-'' # str_nat (nat (- i)) else str_nat (nat i))"

text \<open>
  \<^verbatim>\<open>s.replace(old, new)\<close> where \<^verbatim>\<open>old\<close> is one character, and \<^verbatim>\<open>sep.join(xs)\<close>.
\<close>

definition replace_char :: "char \<Rightarrow> string \<Rightarrow> string \<Rightarrow> string" where
  "replace_char old new s = concat (map (\<lambda>c. if c = old then new else [c]) s)"

fun join :: "string \<Rightarrow> string list \<Rightarrow> string" where
  "join sep [] = []"
| "join sep [x] = x"
| "join sep (x # y # ys) = x @ sep @ join sep (y # ys)"

definition backslash :: char where
  "backslash = CHR 0x5C"

definition apostrophe :: char where
  "apostrophe = CHR 0x27"

text \<open>
  \<^verbatim>\<open>build_ffmpeg_cmd\<close>, lines 139 to 214. \<^verbatim>\<open>main\<close> passes None for a codec that
  \<^verbatim>\<open>--quality custom\<close> leaves open, so \<^verbatim>\<open>vcodec\<close> and \<^verbatim>\<open>acodec\<close> are optional
  here too. A \<^verbatim>\<open>Path\<close> is always truthy, so \<^verbatim>\<open>if burn_subs\<close> tests for None; an
  integer is truthy unless it is zero.
\<close>

definition build_ffmpeg_cmd ::
  "path \<Rightarrow> path \<Rightarrow> string \<Rightarrow> string option \<Rightarrow> string option \<Rightarrow> string option \<Rightarrow>
   string option \<Rightarrow> string option \<Rightarrow> string option \<Rightarrow> string option \<Rightarrow> string option \<Rightarrow>
   string option \<Rightarrow> bool \<Rightarrow> string option \<Rightarrow> bool \<Rightarrow> bool \<Rightarrow> path option \<Rightarrow>
   int option \<Rightarrow> bool \<Rightarrow> string list" where
  "build_ffmpeg_cmd src dst mode vcodec acodec crf preset video_bitrate maxrate bufsize
       audio_bitrate scale deint extra_filters copy_subs no_subs burn_subs threads overwrite =
     (let cmd = [''ffmpeg'', ''-hide_banner'', ''-loglevel'', ''info''];
          cmd = cmd @ [if overwrite then ''-y'' else ''-n'', ''-i'', path_str src];
          vf_chain = [];
          vf_chain = (if deint then vf_chain @ [''yadif''] else vf_chain);
          vf_chain = (if truthy scale then vf_chain @ [''scale='' @ or_empty scale] else vf_chain);
          vf_chain = (if truthy extra_filters then vf_chain @ [or_empty extra_filters]
                      else vf_chain);
          vf_chain =
            (case burn_subs of
               None \<Rightarrow> vf_chain
             | Some b \<Rightarrow>
                 (let subs_path =
                        replace_char CHR '':'' [backslash, CHR '':'']
                          (replace_char backslash [backslash, backslash] (path_str b))
                  in vf_chain @ [''subtitles='' @ [apostrophe] @ subs_path @ [apostrophe]]));
          cmd = (if no_subs then cmd @ [''-sn'']
                 else if copy_subs then cmd @ [''-c:s'', ''copy'']
                 else cmd)
      in if mode = ''remux'' then
           (let cmd = cmd @ [''-c'', ''copy''];
                cmd = cmd @ default_container_flags (lower (lstrip_dot (path_suffix dst)));
                cmd = cmd @ [path_str dst]
            in cmd)
         else
           (let cmd =
                  (if truthy vcodec then
                     (let cmd = cmd @ [''-c:v'', or_empty vcodec];
                          cmd =
                            (if or_empty vcodec
                                  \<in> {''libx264'', ''libx265'', ''h264_nvenc'', ''hevc_nvenc''}
                             then
                               (let cmd = (if truthy crf \<and> \<not> truthy video_bitrate
                                           then cmd @ [''-crf'', or_empty crf] else cmd);
                                    cmd = (if truthy preset
                                           then cmd @ [''-preset'', or_empty preset] else cmd)
                                in cmd)
                             else cmd);
                          cmd = (if truthy video_bitrate
                                 then cmd @ [''-b:v'', or_empty video_bitrate] else cmd);
                          cmd = (if truthy maxrate
                                 then cmd @ [''-maxrate'', or_empty maxrate] else cmd);
                          cmd = (if truthy bufsize
                                 then cmd @ [''-bufsize'', or_empty bufsize] else cmd)
                      in cmd)
                   else cmd);
                cmd =
                  (if truthy acodec then
                     (let cmd = cmd @ [''-c:a'', or_empty acodec];
                          cmd = (if truthy audio_bitrate \<and> or_empty acodec \<notin> {''copy''}
                                 then cmd @ [''-b:a'', or_empty audio_bitrate] else cmd)
                      in cmd)
                   else cmd);
                cmd = (if vf_chain \<noteq> [] then cmd @ [''-vf'', join '','' vf_chain] else cmd);
                cmd = cmd @ default_container_flags (lower (lstrip_dot (path_suffix dst)));
                cmd = (case threads of
                         None \<Rightarrow> cmd
                       | Some n \<Rightarrow> if n \<noteq> 0 then cmd @ [''-threads'', str_int n] else cmd);
                cmd = cmd @ [path_str dst]
            in cmd))"

section \<open>The command as a sequence of argument groups\<close>

text \<open>
  The builder appends to one list. The groups below name what each block of the source
  appends, in the order of the source; the lemmas \<open>build_remux\<close> and \<open>build_transcode\<close>
  show that \<^const>\<open>build_ffmpeg_cmd\<close> is their concatenation.
\<close>

definition base_args :: "bool \<Rightarrow> path \<Rightarrow> string list" where
  "base_args overwrite src =
     [''ffmpeg'', ''-hide_banner'', ''-loglevel'', ''info'']
     @ [if overwrite then ''-y'' else ''-n'', ''-i'', path_str src]"

definition subtitle_args :: "bool \<Rightarrow> bool \<Rightarrow> string list" where
  "subtitle_args no_subs copy_subs =
     (if no_subs then [''-sn''] else if copy_subs then [''-c:s'', ''copy''] else [])"

definition container_of :: "path \<Rightarrow> string" where
  "container_of dst = lower (lstrip_dot (path_suffix dst))"

definition video_args ::
  "string option \<Rightarrow> string option \<Rightarrow> string option \<Rightarrow> string option \<Rightarrow> string option \<Rightarrow>
   string option \<Rightarrow> string list" where
  "video_args vcodec crf preset video_bitrate maxrate bufsize =
     (if truthy vcodec then
        [''-c:v'', or_empty vcodec]
        @ (if or_empty vcodec \<in> {''libx264'', ''libx265'', ''h264_nvenc'', ''hevc_nvenc''}
           then (if truthy crf \<and> \<not> truthy video_bitrate then [''-crf'', or_empty crf] else [])
                @ (if truthy preset then [''-preset'', or_empty preset] else [])
           else [])
        @ (if truthy video_bitrate then [''-b:v'', or_empty video_bitrate] else [])
        @ (if truthy maxrate then [''-maxrate'', or_empty maxrate] else [])
        @ (if truthy bufsize then [''-bufsize'', or_empty bufsize] else [])
      else [])"

definition audio_args :: "string option \<Rightarrow> string option \<Rightarrow> string list" where
  "audio_args acodec audio_bitrate =
     (if truthy acodec then
        [''-c:a'', or_empty acodec]
        @ (if truthy audio_bitrate \<and> or_empty acodec \<notin> {''copy''}
           then [''-b:a'', or_empty audio_bitrate] else [])
      else [])"

text \<open>
  The filter chain in the words of the specification: deinterlace, scale, the user's
  filter string, subtitle burn-in; in the subtitle path every backslash is doubled and
  every colon gets a backslash in front, character by character.
\<close>

definition escape_char :: "char \<Rightarrow> string" where
  "escape_char c =
     (if c = backslash then [backslash, backslash]
      else if c = CHR '':'' then [backslash, CHR '':'']
      else [c])"

definition escape_path :: "string \<Rightarrow> string" where
  "escape_path s = concat (map escape_char s)"

definition filter_chain :: "bool \<Rightarrow> string option \<Rightarrow> string option \<Rightarrow> path option \<Rightarrow> string list" where
  "filter_chain deint scale extra_filters burn_subs =
     (if deint then [''yadif''] else [])
     @ (if truthy scale then [''scale='' @ or_empty scale] else [])
     @ (if truthy extra_filters then [or_empty extra_filters] else [])
     @ (case burn_subs of
          None \<Rightarrow> []
        | Some b \<Rightarrow> [''subtitles='' @ [apostrophe] @ escape_path (path_str b) @ [apostrophe]])"

definition filter_args :: "string list \<Rightarrow> string list" where
  "filter_args chain = (if chain \<noteq> [] then [''-vf'', join '','' chain] else [])"

definition thread_args :: "int option \<Rightarrow> string list" where
  "thread_args threads =
     (case threads of None \<Rightarrow> [] | Some n \<Rightarrow> if n \<noteq> 0 then [''-threads'', str_int n] else [])"


definition crf_capable :: "string set" where
  "crf_capable = {''libx264'', ''libx265'', ''h264_nvenc'', ''hevc_nvenc''}"

definition encoder_flags :: "string list" where
  "encoder_flags =
     [''-c:v'', ''-c:a'', ''-crf'', ''-preset'', ''-b:v'', ''-b:a'', ''-maxrate'', ''-bufsize'']"

definition rate_flags :: "string list" where
  "rate_flags = [''-crf'', ''-preset'', ''-b:v'', ''-maxrate'', ''-bufsize'']"

definition supplied_values ::
  "path \<Rightarrow> path \<Rightarrow> string option \<Rightarrow> string option \<Rightarrow> string option \<Rightarrow> string option \<Rightarrow>
   string option \<Rightarrow> string option \<Rightarrow> string option \<Rightarrow> string option \<Rightarrow> string option \<Rightarrow>
   bool \<Rightarrow> string option \<Rightarrow> path option \<Rightarrow> int option \<Rightarrow> string list" where
  "supplied_values src dst vcodec acodec crf preset video_bitrate maxrate bufsize audio_bitrate
       scale deint extra_filters burn_subs threads =
     [path_str src, path_str dst, or_empty vcodec, or_empty acodec, or_empty crf,
      or_empty preset, or_empty video_bitrate, or_empty maxrate, or_empty bufsize,
      or_empty audio_bitrate, join '','' (filter_chain deint scale extra_filters burn_subs)]
     @ (case threads of None \<Rightarrow> [] | Some n \<Rightarrow> [str_int n])"

definition fixed_tokens :: "string set" where
  "fixed_tokens =
     {''ffmpeg'', ''-hide_banner'', ''-loglevel'', ''info'', ''-y'', ''-n'', ''-i'', ''-sn'',
      ''-c:s'', ''copy'', ''-c'', ''-movflags'', ''+faststart'', ''-pix_fmt'', ''yuv420p''}"


section \<open>Properties of the compatibility table\<close>

lemma lower_mkv: "lower ''mkv'' = ''mkv''"
  by (simp add: lower_def lower_char_def)

text \<open>
  Claim C9. For the Matroska-family container (\<^verbatim>\<open>mkv\<close>, in any letter case),
  \<^const>\<open>container_allows_codecs\<close> returns true for every video codec and every audio
  codec, absent codecs included.
\<close>

theorem mkv_allows_every_codec_pair:
  "lower container = ''mkv'' \<Longrightarrow> container_allows_codecs container vcodec acodec = True"
  by (simp add: container_allows_codecs_def Let_def)

theorem mkv_allows_every_codec_pair_witness:
  "lower ''mkv'' = ''mkv'' \<and> container_allows_codecs ''mkv'' None None = True
   \<and> container_allows_codecs ''mkv'' (Some ''h264'') (Some ''aac'') = True"
  using mkv_allows_every_codec_pair [OF lower_mkv, of None None]
        mkv_allows_every_codec_pair [OF lower_mkv, of "Some ''h264''" "Some ''aac''"]
  by (simp add: lower_mkv)




text \<open>
  Claim C6. With the audio codec absent (None, or the empty string that
  \<^verbatim>\<open>acodec or ""\<close> treats alike), the MP4 family (mp4, m4v, mov) answers true
  exactly when the video codec is acceptable, and webm, mpg, mpeg, ts, m2ts and avi
  answer false whatever the video codec is.
\<close>

theorem audio_absence_by_container:
  assumes "acodec = None \<or> acodec = Some ''''"
  shows "(lower container \<in> {''mp4'', ''m4v'', ''mov''} \<longrightarrow>
            container_allows_codecs container vcodec acodec =
              (lower (or_empty vcodec) \<in> {''h264'', ''hevc'', ''mpeg4''}))
       \<and> (lower container \<in> {''webm'', ''mpg'', ''mpeg'', ''ts'', ''m2ts'', ''avi''} \<longrightarrow>
            container_allows_codecs container vcodec acodec = False)"
  using assms
  by (auto simp add: container_allows_codecs_def Let_def or_empty_def lower_def)

theorem audio_absence_by_container_witness:
  "container_allows_codecs ''mp4'' (Some ''h264'') None = True
   \<and> container_allows_codecs ''m4v'' (Some ''hevc'') None = True
   \<and> container_allows_codecs ''mov'' (Some ''mpeg4'') None = True
   \<and> container_allows_codecs ''webm'' (Some ''vp9'') None = False
   \<and> container_allows_codecs ''mpg'' (Some ''mpeg2video'') None = False
   \<and> container_allows_codecs ''ts'' (Some ''mpeg2video'') None = False
   \<and> container_allows_codecs ''avi'' (Some ''h264'') None = False"
  using audio_absence_by_container [of None "''mp4''" "Some ''h264''"]
        audio_absence_by_container [of None "''m4v''" "Some ''hevc''"]
        audio_absence_by_container [of None "''mov''" "Some ''mpeg4''"]
        audio_absence_by_container [of None "''webm''" "Some ''vp9''"]
        audio_absence_by_container [of None "''mpg''" "Some ''mpeg2video''"]
        audio_absence_by_container [of None "''ts''" "Some ''mpeg2video''"]
        audio_absence_by_container [of None "''avi''" "Some ''h264''"]
  by (simp add: lower_def lower_char_def or_empty_def)

section \<open>Properties of the policy selector\<close>

text \<open>
  Claim C3. For quality preset \<^verbatim>\<open>auto\<close>: when the compatibility table accepts the
  probed codecs for the target container the mode is remux; otherwise the mode is
  transcode and each of video codec, audio codec, CRF, preset and audio bitrate is the
  user's value when one is given and else the default: the container's codecs
  (\<^verbatim>\<open>libvpx-vp9\<close> and \<^verbatim>\<open>libopus\<close> for webm), CRF 20, preset \<^verbatim>\<open>fast\<close>, 192k.
  The table rejects h264 with aac for webm.
\<close>

theorem auto_policy:
  assumes "args_quality a = ''auto''"
  shows "(container_allows_codecs out_ext vcodec acodec \<longrightarrow>
            effective_mode (policy_selector a out_ext vcodec acodec) = ''remux'')
       \<and> (\<not> container_allows_codecs out_ext vcodec acodec \<longrightarrow>
            policy_selector a out_ext vcodec acodec
            = \<lparr>effective_mode = ''transcode'',
               vcodec_use = or_default (args_vcodec a) (dict_get VCODEC_DEFAULTS out_ext ''libx264''),
               acodec_use = or_default (args_acodec a) (dict_get ACODEC_DEFAULTS out_ext ''aac''),
               crf_use = or_default (args_crf a) ''20'',
               preset_use = or_default (args_preset a) ''fast'',
               abr_use = or_default (args_audio_bitrate a) ''192k''\<rparr>)
       \<and> dict_get VCODEC_DEFAULTS ''webm'' ''libx264'' = ''libvpx-vp9''
       \<and> dict_get ACODEC_DEFAULTS ''webm'' ''aac'' = ''libopus''
       \<and> \<not> container_allows_codecs ''webm'' (Some ''h264'') (Some ''aac'')"
  using assms
  by (simp add: policy_selector_def Let_def dict_get_def VCODEC_DEFAULTS_def ACODEC_DEFAULTS_def
      container_allows_codecs_def lower_def lower_char_def or_empty_def)

theorem auto_policy_witness:
  "policy_selector
        \<lparr>args_quality = ''auto'', args_mode = ''auto'', args_vcodec = None,
           args_acodec = None, args_crf = None, args_preset = None,
           args_audio_bitrate = None\<rparr> ''webm'' (Some ''h264'') (Some ''aac'')
     = \<lparr>effective_mode = ''transcode'', vcodec_use = Some ''libvpx-vp9'',
        acodec_use = Some ''libopus'', crf_use = Some ''20'', preset_use = Some ''fast'',
        abr_use = Some ''192k''\<rparr>
   \<and> effective_mode (policy_selector
        \<lparr>args_quality = ''auto'', args_mode = ''auto'', args_vcodec = None,
           args_acodec = None, args_crf = None, args_preset = None,
           args_audio_bitrate = None\<rparr> ''mp4'' (Some ''h264'') (Some ''aac'')) = ''remux''"
proof -
  have c: "container_allows_codecs ''mp4'' (Some ''h264'') (Some ''aac'')"
    by (simp add: container_allows_codecs_def Let_def lower_def lower_char_def or_empty_def)
  show ?thesis
    using auto_policy [of "\<lparr>args_quality = ''auto'', args_mode = ''auto'', args_vcodec = None,
           args_acodec = None, args_crf = None, args_preset = None,
           args_audio_bitrate = None\<rparr>" "''webm''" "Some ''h264''" "Some ''aac''"]
      auto_policy [of "\<lparr>args_quality = ''auto'', args_mode = ''auto'', args_vcodec = None,
           args_acodec = None, args_crf = None, args_preset = None,
           args_audio_bitrate = None\<rparr>" "''mp4''" "Some ''h264''" "Some ''aac''"] c
    by (simp add: or_default_def truthy_def or_empty_def)
qed



section \<open>The builder as a concatenation of argument groups\<close>

lemma replace_twice_escape:
  "replace_char CHR '':'' [backslash, CHR '':''] (replace_char backslash [backslash, backslash] s)
   = escape_path s"
  by (induction s) (simp_all add: replace_char_def escape_path_def escape_char_def backslash_def)

lemma build_remux:
  "build_ffmpeg_cmd src dst ''remux'' vcodec acodec crf preset video_bitrate maxrate bufsize
       audio_bitrate scale deint extra_filters copy_subs no_subs burn_subs threads overwrite
   = base_args overwrite src @ subtitle_args no_subs copy_subs @ [''-c'', ''copy'']
     @ default_container_flags (container_of dst) @ [path_str dst]"
  by (simp add: build_ffmpeg_cmd_def base_args_def subtitle_args_def container_of_def Let_def)

lemma if_append: "(if c then xs @ ys else xs) = xs @ (if c then ys else [])"
  by simp

lemma case_append:
  "(case t of None \<Rightarrow> xs | Some n \<Rightarrow> xs @ f n) = xs @ (case t of None \<Rightarrow> [] | Some n \<Rightarrow> f n)"
  by (cases t) simp_all

lemma case_if_append:
  "(case t of None \<Rightarrow> xs | Some n \<Rightarrow> if g n then xs @ f n else xs)
     = xs @ (case t of None \<Rightarrow> [] | Some n \<Rightarrow> if g n then f n else [])"
  by (cases t) simp_all

lemma if_append2: "(if c then xs @ ys else xs @ zs) = xs @ (if c then ys else zs)"
  by simp

lemma if_if_append:
  "(if c then xs @ ys else if d then xs @ zs else xs) = xs @ (if c then ys else if d then zs else [])"
  by simp

lemma build_transcode:
  "mode \<noteq> ''remux'' \<Longrightarrow>
   build_ffmpeg_cmd src dst mode vcodec acodec crf preset video_bitrate maxrate bufsize
       audio_bitrate scale deint extra_filters copy_subs no_subs burn_subs threads overwrite
   = base_args overwrite src @ subtitle_args no_subs copy_subs
     @ video_args vcodec crf preset video_bitrate maxrate bufsize
     @ audio_args acodec audio_bitrate
     @ filter_args (filter_chain deint scale extra_filters burn_subs)
     @ default_container_flags (container_of dst)
     @ thread_args threads
     @ [path_str dst]"
  unfolding build_ffmpeg_cmd_def base_args_def subtitle_args_def container_of_def
        video_args_def audio_args_def filter_args_def filter_chain_def thread_args_def
  by (simp only: if_append if_append2 if_if_append case_append case_if_append Let_def append_assoc
      append_Nil replace_twice_escape if_False cong del: let_weak_cong cong: if_cong)

section \<open>Properties of remux commands\<close>

lemma set_subtitle_args: "set (subtitle_args no_subs copy_subs) \<subseteq> fixed_tokens"
  by (auto simp add: subtitle_args_def fixed_tokens_def)

lemma set_default_container_flags: "set (default_container_flags c) \<subseteq> fixed_tokens"
  by (auto simp add: default_container_flags_def Let_def fixed_tokens_def)

lemma set_base_args: "set (base_args overwrite src) \<subseteq> insert (path_str src) fixed_tokens"
  by (auto simp add: base_args_def fixed_tokens_def)

lemma copy_tokens: "''-c'' \<in> fixed_tokens" "''copy'' \<in> fixed_tokens"
  by (simp_all add: fixed_tokens_def)

lemma src_in_base_args: "path_str src \<in> set (base_args overwrite src)"
  by (simp add: base_args_def)

lemma encoder_flag_not_fixed: "f \<in> set encoder_flags \<Longrightarrow> f \<notin> fixed_tokens"
  by (auto simp add: encoder_flags_def fixed_tokens_def)

lemma vf_not_fixed: "''-vf'' \<notin> fixed_tokens"
  by (simp add: fixed_tokens_def)

lemma set_remux:
  "set (build_ffmpeg_cmd src dst ''remux'' vcodec acodec crf preset video_bitrate maxrate
       bufsize audio_bitrate scale deint extra_filters copy_subs no_subs burn_subs threads
       overwrite)
   \<subseteq> {path_str src, path_str dst} \<union> fixed_tokens"
  using set_subtitle_args [of no_subs copy_subs] set_default_container_flags [of "container_of dst"]
    set_base_args [of overwrite src] copy_tokens
  unfolding build_remux set_append by (simp add: subset_iff) blast

lemma remux_has_paths:
  "{path_str src, path_str dst}
   \<subseteq> set (build_ffmpeg_cmd src dst ''remux'' vcodec acodec crf preset
       video_bitrate maxrate bufsize audio_bitrate scale deint extra_filters copy_subs no_subs
       burn_subs threads overwrite)"
  by (simp add: build_remux src_in_base_args)

lemma remux_flag_iff:
  assumes "f \<notin> fixed_tokens"
  shows "f \<in> set (build_ffmpeg_cmd src dst ''remux'' vcodec acodec crf preset
       video_bitrate maxrate bufsize audio_bitrate scale deint extra_filters copy_subs no_subs
       burn_subs threads overwrite) \<longleftrightarrow> f = path_str src \<or> f = path_str dst"
  using assms set_remux [of src dst vcodec acodec crf preset
       video_bitrate maxrate bufsize audio_bitrate scale deint extra_filters copy_subs no_subs
       burn_subs threads overwrite]
    remux_has_paths [of src dst vcodec acodec crf preset
       video_bitrate maxrate bufsize audio_bitrate scale deint extra_filters copy_subs no_subs
       burn_subs threads overwrite]
  by blast

text \<open>
  Claim C4. Whatever codecs, CRF, preset, bitrates, filters and thread count are passed,
  a remux command is the fixed head, the subtitle option, \<^verbatim>\<open>-c copy\<close>, the
  finalization flags of the destination container and the destination path; none of
  \<^verbatim>\<open>-c:v\<close>, \<^verbatim>\<open>-c:a\<close>, \<^verbatim>\<open>-crf\<close>, \<^verbatim>\<open>-preset\<close>, \<^verbatim>\<open>-b:v\<close>, \<^verbatim>\<open>-b:a\<close>,
  \<^verbatim>\<open>-maxrate\<close>, \<^verbatim>\<open>-bufsize\<close> occurs in it, unless the source or destination path
  is itself that string.
\<close>

theorem remux_stream_copy_only:
  "build_ffmpeg_cmd src dst ''remux'' vcodec acodec crf preset video_bitrate maxrate bufsize
       audio_bitrate scale deint extra_filters copy_subs no_subs burn_subs threads overwrite
     = base_args overwrite src @ subtitle_args no_subs copy_subs @ [''-c'', ''copy'']
       @ default_container_flags (container_of dst) @ [path_str dst]
   \<and> set (build_ffmpeg_cmd src dst ''remux'' vcodec acodec crf preset video_bitrate maxrate
          bufsize audio_bitrate scale deint extra_filters copy_subs no_subs burn_subs threads
          overwrite) \<inter> set encoder_flags
     = {path_str src, path_str dst} \<inter> set encoder_flags"
proof
  show "build_ffmpeg_cmd src dst ''remux'' vcodec acodec crf preset video_bitrate maxrate bufsize
       audio_bitrate scale deint extra_filters copy_subs no_subs burn_subs threads overwrite
     = base_args overwrite src @ subtitle_args no_subs copy_subs @ [''-c'', ''copy'']
       @ default_container_flags (container_of dst) @ [path_str dst]"
    by (rule build_remux)
next
  show "set (build_ffmpeg_cmd src dst ''remux'' vcodec acodec crf preset video_bitrate maxrate
          bufsize audio_bitrate scale deint extra_filters copy_subs no_subs burn_subs threads
          overwrite) \<inter> set encoder_flags
     = {path_str src, path_str dst} \<inter> set encoder_flags"
    using remux_flag_iff [OF encoder_flag_not_fixed, of _ src dst vcodec acodec crf preset
        video_bitrate maxrate bufsize audio_bitrate scale deint extra_filters copy_subs no_subs
        burn_subs threads overwrite]
    by blast
qed

theorem remux_stream_copy_only_witness:
  "build_ffmpeg_cmd \<lparr>path_str = ''/in/movie.mkv'', path_suffix = ''.mkv''\<rparr>
       \<lparr>path_str = ''/in/movie.mp4'', path_suffix = ''.mp4''\<rparr> ''remux''
       (Some ''libx264'') (Some ''aac'') (Some ''18'') (Some ''slow'') (Some ''5M'') (Some ''6M'')
       (Some ''10M'') (Some ''320k'') None False None False False None (Some 4) True
     = [''ffmpeg'', ''-hide_banner'', ''-loglevel'', ''info'', ''-y'', ''-i'', ''/in/movie.mkv'',
        ''-c'', ''copy'', ''-movflags'', ''+faststart'', ''-pix_fmt'', ''yuv420p'',
        ''/in/movie.mp4'']
   \<and> set (build_ffmpeg_cmd \<lparr>path_str = ''/in/movie.mkv'', path_suffix = ''.mkv''\<rparr>
       \<lparr>path_str = ''/in/movie.mp4'', path_suffix = ''.mp4''\<rparr> ''remux''
       (Some ''libx264'') (Some ''aac'') (Some ''18'') (Some ''slow'') (Some ''5M'') (Some ''6M'')
       (Some ''10M'') (Some ''320k'') None False None False False None (Some 4) True)
     \<inter> set encoder_flags = {}"
  using remux_stream_copy_only [of "\<lparr>path_str = ''/in/movie.mkv'', path_suffix = ''.mkv''\<rparr>"
       "\<lparr>path_str = ''/in/movie.mp4'', path_suffix = ''.mp4''\<rparr>"
       "Some ''libx264''" "Some ''aac''" "Some ''18''" "Some ''slow''" "Some ''5M''" "Some ''6M''"
       "Some ''10M''" "Some ''320k''" None False None False False None "Some 4" True]
  by (simp add: base_args_def subtitle_args_def default_container_flags_def container_of_def
      lower_def lower_char_def lstrip_dot_def encoder_flags_def)

text \<open>
  Claim C10. A remux command contains no \<^verbatim>\<open>-vf\<close> (the string can only occur as the
  source or destination path itself), and it is the command that the same call gives with
  no deinterlacing, no scale, no user filter and no subtitle burn-in: the four filter
  arguments are dropped.
\<close>

theorem remux_drops_filters:
  "(''-vf'' \<in> set (build_ffmpeg_cmd src dst ''remux'' vcodec acodec crf preset video_bitrate
        maxrate bufsize audio_bitrate scale deint extra_filters copy_subs no_subs burn_subs
        threads overwrite)
      \<longleftrightarrow> path_str src = ''-vf'' \<or> path_str dst = ''-vf'')
   \<and> build_ffmpeg_cmd src dst ''remux'' vcodec acodec crf preset video_bitrate
        maxrate bufsize audio_bitrate scale deint extra_filters copy_subs no_subs burn_subs
        threads overwrite
     = build_ffmpeg_cmd src dst ''remux'' vcodec acodec crf preset video_bitrate
        maxrate bufsize audio_bitrate None False None copy_subs no_subs None
        threads overwrite"
  using remux_flag_iff [OF vf_not_fixed, of src dst vcodec acodec crf preset video_bitrate
        maxrate bufsize audio_bitrate scale deint extra_filters copy_subs no_subs burn_subs
        threads overwrite]
  by (auto simp only: build_remux)

theorem remux_drops_filters_witness:
  "''-vf'' \<notin> set (build_ffmpeg_cmd \<lparr>path_str = ''/in/movie.mkv'', path_suffix = ''.mkv''\<rparr>
       \<lparr>path_str = ''/in/movie.mp4'', path_suffix = ''.mp4''\<rparr> ''remux''
       None None None None None None None None (Some ''1280:720'') True (Some ''hqdn3d'')
       False False (Some \<lparr>path_str = ''/in/movie.srt'', path_suffix = ''.srt''\<rparr>) None False)"
  using remux_drops_filters [of "\<lparr>path_str = ''/in/movie.mkv'', path_suffix = ''.mkv''\<rparr>"
       "\<lparr>path_str = ''/in/movie.mp4'', path_suffix = ''.mp4''\<rparr>"
       None None None None None None None None "Some ''1280:720''" True "Some ''hqdn3d''"
       False False "Some \<lparr>path_str = ''/in/movie.srt'', path_suffix = ''.srt''\<rparr>" None False,
       THEN conjunct1]
  by simp

section \<open>Properties of transcode commands\<close>

text \<open>
  Claim C7. Outside remux mode the command carries, between the audio arguments and the
  container flags, \<^verbatim>\<open>-vf\<close> followed by the comma-joined \<^const>\<open>filter_chain\<close> when
  that chain is not empty, and nothing otherwise; \<^const>\<open>filter_chain\<close> is yadif, then
  scale, then the user's filter string, then the subtitles filter whose path has every
  backslash doubled and every colon preceded by a backslash.
\<close>

theorem filter_chain_fixed_order:
  assumes "mode \<noteq> ''remux''"
  shows "build_ffmpeg_cmd src dst mode vcodec acodec crf preset video_bitrate maxrate bufsize
       audio_bitrate scale deint extra_filters copy_subs no_subs burn_subs threads overwrite
     = (base_args overwrite src @ subtitle_args no_subs copy_subs
        @ video_args vcodec crf preset video_bitrate maxrate bufsize
        @ audio_args acodec audio_bitrate)
       @ (if filter_chain deint scale extra_filters burn_subs = [] then []
          else [''-vf'', join '','' (filter_chain deint scale extra_filters burn_subs)])
       @ (default_container_flags (container_of dst) @ thread_args threads @ [path_str dst])"
  using build_transcode [OF assms] by (simp add: filter_args_def)

theorem filter_chain_fixed_order_witness:
  "''transcode'' \<noteq> ''remux''
   \<and> build_ffmpeg_cmd \<lparr>path_str = ''in.avi'', path_suffix = ''.avi''\<rparr>
       \<lparr>path_str = ''out.mkv'', path_suffix = ''.mkv''\<rparr> ''transcode''
       None None None None None None None None (Some ''1280:720'') True (Some ''hqdn3d'')
       False False (Some \<lparr>path_str = ''C:'' @ [backslash] @ ''s.srt'', path_suffix = ''.srt''\<rparr>)
       None False
     = [''ffmpeg'', ''-hide_banner'', ''-loglevel'', ''info'', ''-n'', ''-i'', ''in.avi'', ''-vf'',
        ''yadif,scale=1280:720,hqdn3d,subtitles='' @ [apostrophe] @ ''C'' @ [backslash] @ '':''
          @ [backslash, backslash] @ ''s.srt'' @ [apostrophe],
        ''out.mkv'']"
proof -
  have h: "''transcode'' \<noteq> ''remux''" by simp
  show ?thesis
    using filter_chain_fixed_order [OF h, of "\<lparr>path_str = ''in.avi'', path_suffix = ''.avi''\<rparr>"
       "\<lparr>path_str = ''out.mkv'', path_suffix = ''.mkv''\<rparr>"
       None None None None None None None None "Some ''1280:720''" True "Some ''hqdn3d''"
       False False "Some \<lparr>path_str = ''C:'' @ [backslash] @ ''s.srt'', path_suffix = ''.srt''\<rparr>"
       None False]
    by (simp add: base_args_def subtitle_args_def video_args_def audio_args_def filter_chain_def
        default_container_flags_def container_of_def thread_args_def truthy_def or_empty_def
        escape_path_def escape_char_def backslash_def apostrophe_def lower_def lower_char_def
        lstrip_dot_def)
qed

lemma rate_flag_not_fixed: "f \<in> set rate_flags \<Longrightarrow> f \<notin> fixed_tokens"
  by (auto simp add: rate_flags_def fixed_tokens_def)

lemma set_audio_args:
  "set (audio_args acodec audio_bitrate)
   \<subseteq> {''-c:a'', ''-b:a'', or_empty acodec, or_empty audio_bitrate}"
  by (auto simp add: audio_args_def)

lemma set_filter_args: "set (filter_args chain) \<subseteq> {''-vf'', join '','' chain}"
  by (auto simp add: filter_args_def)

lemma set_thread_args:
  "set (thread_args threads) \<subseteq> insert ''-threads'' (set (case threads of None \<Rightarrow> [] | Some n \<Rightarrow> [str_int n]))"
  by (auto simp add: thread_args_def split: option.splits if_splits)

lemma rate_flag_not_other: "f \<in> set rate_flags \<Longrightarrow> f \<notin> {''-c:a'', ''-b:a'', ''-vf'', ''-threads''}"
  by (auto simp add: rate_flags_def)

lemma rate_flag_only_in_video_args:
  assumes "mode \<noteq> ''remux''" and "f \<in> set rate_flags"
    and "f \<notin> set (supplied_values src dst vcodec acodec crf preset video_bitrate maxrate
            bufsize audio_bitrate scale deint extra_filters burn_subs threads)"
  shows "f \<in> set (build_ffmpeg_cmd src dst mode vcodec acodec crf preset video_bitrate maxrate
            bufsize audio_bitrate scale deint extra_filters copy_subs no_subs burn_subs threads
            overwrite)
         \<longleftrightarrow> f \<in> set (video_args vcodec crf preset video_bitrate maxrate bufsize)"
proof -
  have a: "f \<notin> set (base_args overwrite src)"
    using set_base_args [of overwrite src] rate_flag_not_fixed [OF assms(2)] assms(3)
    by (auto simp add: supplied_values_def)
  have b: "f \<notin> set (subtitle_args no_subs copy_subs)"
    using set_subtitle_args [of no_subs copy_subs] rate_flag_not_fixed [OF assms(2)] by blast
  have c: "f \<notin> set (audio_args acodec audio_bitrate)"
    using set_audio_args [of acodec audio_bitrate] rate_flag_not_other [OF assms(2)] assms(3)
    by (auto simp add: supplied_values_def)
  have d: "f \<notin> set (filter_args (filter_chain deint scale extra_filters burn_subs))"
    using set_filter_args [of "filter_chain deint scale extra_filters burn_subs"]
      rate_flag_not_other [OF assms(2)] assms(3)
    by (auto simp add: supplied_values_def)
  have e: "f \<notin> set (default_container_flags (container_of dst))"
    using set_default_container_flags [of "container_of dst"] rate_flag_not_fixed [OF assms(2)]
    by blast
  have g: "f \<notin> set (thread_args threads)"
    using set_thread_args [of threads] rate_flag_not_other [OF assms(2)] assms(3)
    by (auto simp add: supplied_values_def)
  have h: "f \<noteq> path_str dst"
    using assms(3) by (auto simp add: supplied_values_def)
  show ?thesis
    using a b c d e g h by (simp add: build_transcode [OF assms(1)])
qed

lemma video_args_crf:
  assumes "set [or_empty vcodec, or_empty crf, or_empty preset, or_empty video_bitrate,
                or_empty maxrate, or_empty bufsize] \<inter> set rate_flags = {}"
  shows "''-crf'' \<in> set (video_args vcodec crf preset video_bitrate maxrate bufsize)
         \<longleftrightarrow> truthy crf \<and> \<not> truthy video_bitrate \<and> or_empty vcodec \<in> crf_capable"
  using assms by (auto simp add: video_args_def crf_capable_def rate_flags_def truthy_def)

lemma video_args_preset:
  assumes "set [or_empty vcodec, or_empty crf, or_empty preset, or_empty video_bitrate,
                or_empty maxrate, or_empty bufsize] \<inter> set rate_flags = {}"
  shows "''-preset'' \<in> set (video_args vcodec crf preset video_bitrate maxrate bufsize)
         \<longleftrightarrow> truthy preset \<and> or_empty vcodec \<in> crf_capable"
  using assms by (auto simp add: video_args_def crf_capable_def rate_flags_def truthy_def)

lemma video_args_bitrate:
  assumes "set [or_empty vcodec, or_empty crf, or_empty preset, or_empty video_bitrate,
                or_empty maxrate, or_empty bufsize] \<inter> set rate_flags = {}"
  shows "''-b:v'' \<in> set (video_args vcodec crf preset video_bitrate maxrate bufsize)
         \<longleftrightarrow> truthy video_bitrate \<and> truthy vcodec"
  using assms by (auto simp add: video_args_def crf_capable_def rate_flags_def truthy_def)

lemma video_args_maxrate:
  assumes "set [or_empty vcodec, or_empty crf, or_empty preset, or_empty video_bitrate,
                or_empty maxrate, or_empty bufsize] \<inter> set rate_flags = {}"
  shows "''-maxrate'' \<in> set (video_args vcodec crf preset video_bitrate maxrate bufsize)
         \<longleftrightarrow> truthy maxrate \<and> truthy vcodec"
  using assms by (auto simp add: video_args_def crf_capable_def rate_flags_def truthy_def)

lemma video_args_bufsize:
  assumes "set [or_empty vcodec, or_empty crf, or_empty preset, or_empty video_bitrate,
                or_empty maxrate, or_empty bufsize] \<inter> set rate_flags = {}"
  shows "''-bufsize'' \<in> set (video_args vcodec crf preset video_bitrate maxrate bufsize)
         \<longleftrightarrow> truthy bufsize \<and> truthy vcodec"
  using assms by (auto simp add: video_args_def crf_capable_def rate_flags_def truthy_def)

lemma supplied_video_values:
  "set (supplied_values src dst vcodec acodec crf preset video_bitrate maxrate bufsize
          audio_bitrate scale deint extra_filters burn_subs threads) \<inter> set rate_flags = {} \<Longrightarrow>
   set [or_empty vcodec, or_empty crf, or_empty preset, or_empty video_bitrate,
        or_empty maxrate, or_empty bufsize] \<inter> set rate_flags = {}"
  by (auto simp add: supplied_values_def)

lemma rate_flags_members:
  "''-crf'' \<in> set rate_flags" "''-preset'' \<in> set rate_flags" "''-b:v'' \<in> set rate_flags"
  "''-maxrate'' \<in> set rate_flags" "''-bufsize'' \<in> set rate_flags"
  by (simp_all add: rate_flags_def)

text \<open>
  Claim C2, as stated, has \<^verbatim>\<open>-preset\<close> emitted whenever a preset is provided. The
  source emits it inside the test for a CRF-capable encoder: for the webm default codec
  \<^verbatim>\<open>libvpx-vp9\<close> with preset \<^verbatim>\<open>fast\<close> the command has no \<^verbatim>\<open>-preset\<close>.
\<close>

theorem preset_not_always_emitted_counterexample:
  "truthy (Some ''fast'')
   \<and> ''-preset'' \<notin> set (build_ffmpeg_cmd \<lparr>path_str = ''/in/movie.mkv'', path_suffix = ''.mkv''\<rparr>
        \<lparr>path_str = ''/in/movie.webm'', path_suffix = ''.webm''\<rparr> ''transcode''
        (Some ''libvpx-vp9'') (Some ''libopus'') (Some ''20'') (Some ''fast'') None None None
        (Some ''192k'') None False None False False None None False)"
  by (simp add: build_ffmpeg_cmd_def Let_def truthy_def or_empty_def default_container_flags_def
      lower_def lower_char_def lstrip_dot_def)

text \<open>
  Claim C2, amended. Outside remux mode, when no string passed to the builder is itself
  one of the five option names: \<^verbatim>\<open>-crf\<close> is in the command if and only if a CRF is
  given, no video bitrate is given and the video codec is a CRF-capable encoder;
  \<^verbatim>\<open>-preset\<close> if and only if a preset is given and the video codec is a CRF-capable
  encoder; each of \<^verbatim>\<open>-b:v\<close>, \<^verbatim>\<open>-maxrate\<close>, \<^verbatim>\<open>-bufsize\<close> if and only if its value
  is given and a video codec is given. So for \<^verbatim>\<open>libvpx-vp9\<close> neither \<^verbatim>\<open>-crf\<close> nor
  \<^verbatim>\<open>-preset\<close> appears.
\<close>

theorem transcode_rate_control_args:
  assumes "mode \<noteq> ''remux''"
    and "set (supplied_values src dst vcodec acodec crf preset video_bitrate maxrate bufsize
            audio_bitrate scale deint extra_filters burn_subs threads) \<inter> set rate_flags = {}"
  shows "(''-crf'' \<in> set (build_ffmpeg_cmd src dst mode vcodec acodec crf preset video_bitrate
            maxrate bufsize audio_bitrate scale deint extra_filters copy_subs no_subs burn_subs
            threads overwrite)
          \<longleftrightarrow> truthy crf \<and> \<not> truthy video_bitrate \<and> or_empty vcodec \<in> crf_capable)
       \<and> (''-preset'' \<in> set (build_ffmpeg_cmd src dst mode vcodec acodec crf preset video_bitrate
            maxrate bufsize audio_bitrate scale deint extra_filters copy_subs no_subs burn_subs
            threads overwrite)
          \<longleftrightarrow> truthy preset \<and> or_empty vcodec \<in> crf_capable)
       \<and> (''-b:v'' \<in> set (build_ffmpeg_cmd src dst mode vcodec acodec crf preset video_bitrate
            maxrate bufsize audio_bitrate scale deint extra_filters copy_subs no_subs burn_subs
            threads overwrite)
          \<longleftrightarrow> truthy video_bitrate \<and> truthy vcodec)
       \<and> (''-maxrate'' \<in> set (build_ffmpeg_cmd src dst mode vcodec acodec crf preset video_bitrate
            maxrate bufsize audio_bitrate scale deint extra_filters copy_subs no_subs burn_subs
            threads overwrite)
          \<longleftrightarrow> truthy maxrate \<and> truthy vcodec)
       \<and> (''-bufsize'' \<in> set (build_ffmpeg_cmd src dst mode vcodec acodec crf preset video_bitrate
            maxrate bufsize audio_bitrate scale deint extra_filters copy_subs no_subs burn_subs
            threads overwrite)
          \<longleftrightarrow> truthy bufsize \<and> truthy vcodec)"
proof -
  note v = supplied_video_values [OF assms(2)]
  have only: "f \<in> set (build_ffmpeg_cmd src dst mode vcodec acodec crf preset video_bitrate
            maxrate bufsize audio_bitrate scale deint extra_filters copy_subs no_subs burn_subs
            threads overwrite)
        \<longleftrightarrow> f \<in> set (video_args vcodec crf preset video_bitrate maxrate bufsize)"
    if "f \<in> set rate_flags" for f
  proof (rule rate_flag_only_in_video_args [OF assms(1) that])
    show "f \<notin> set (supplied_values src dst vcodec acodec crf preset video_bitrate maxrate
            bufsize audio_bitrate scale deint extra_filters burn_subs threads)"
      using assms(2) that by blast
  qed
  show ?thesis
    by (simp only: only [OF rate_flags_members(1)] only [OF rate_flags_members(2)]
        only [OF rate_flags_members(3)] only [OF rate_flags_members(4)]
        only [OF rate_flags_members(5)] video_args_crf [OF v] video_args_preset [OF v]
        video_args_bitrate [OF v] video_args_maxrate [OF v] video_args_bufsize [OF v] simp_thms)
qed

theorem transcode_rate_control_args_witness:
  "''-crf'' \<notin> set (build_ffmpeg_cmd \<lparr>path_str = ''/in/movie.mkv'', path_suffix = ''.mkv''\<rparr>
        \<lparr>path_str = ''/in/movie.webm'', path_suffix = ''.webm''\<rparr> ''transcode''
        (Some ''libvpx-vp9'') (Some ''libopus'') (Some ''20'') (Some ''fast'') None None None
        (Some ''192k'') None False None False False None (Some 4) False)
   \<and> ''-preset'' \<notin> set (build_ffmpeg_cmd \<lparr>path_str = ''/in/movie.mkv'', path_suffix = ''.mkv''\<rparr>
        \<lparr>path_str = ''/in/movie.webm'', path_suffix = ''.webm''\<rparr> ''transcode''
        (Some ''libvpx-vp9'') (Some ''libopus'') (Some ''20'') (Some ''fast'') None None None
        (Some ''192k'') None False None False False None (Some 4) False)
   \<and> ''-crf'' \<in> set (build_ffmpeg_cmd \<lparr>path_str = ''/in/movie.mkv'', path_suffix = ''.mkv''\<rparr>
        \<lparr>path_str = ''/in/movie.mp4'', path_suffix = ''.mp4''\<rparr> ''transcode''
        (Some ''libx264'') (Some ''aac'') (Some ''20'') (Some ''fast'') None (Some ''6M'')
        (Some ''10M'') (Some ''192k'') None False None False False None None False)
   \<and> ''-preset'' \<in> set (build_ffmpeg_cmd \<lparr>path_str = ''/in/movie.mkv'', path_suffix = ''.mkv''\<rparr>
        \<lparr>path_str = ''/in/movie.mp4'', path_suffix = ''.mp4''\<rparr> ''transcode''
        (Some ''libx264'') (Some ''aac'') (Some ''20'') (Some ''fast'') None (Some ''6M'')
        (Some ''10M'') (Some ''192k'') None False None False False None None False)
   \<and> ''-maxrate'' \<in> set (build_ffmpeg_cmd \<lparr>path_str = ''/in/movie.mkv'', path_suffix = ''.mkv''\<rparr>
        \<lparr>path_str = ''/in/movie.mp4'', path_suffix = ''.mp4''\<rparr> ''transcode''
        (Some ''libx264'') (Some ''aac'') (Some ''20'') (Some ''fast'') None (Some ''6M'')
        (Some ''10M'') (Some ''192k'') None False None False False None None False)"
proof -
  have m: "''transcode'' \<noteq> ''remux''" by simp
  have s1: "set (supplied_values \<lparr>path_str = ''/in/movie.mkv'', path_suffix = ''.mkv''\<rparr>
        \<lparr>path_str = ''/in/movie.webm'', path_suffix = ''.webm''\<rparr>
        (Some ''libvpx-vp9'') (Some ''libopus'') (Some ''20'') (Some ''fast'') None None None
        (Some ''192k'') None False None None (Some 4)) \<inter> set rate_flags = {}"
    by (simp add: supplied_values_def rate_flags_def or_empty_def filter_chain_def truthy_def
        str_int_def str_nat.simps digit_char_def)
  have s2: "set (supplied_values \<lparr>path_str = ''/in/movie.mkv'', path_suffix = ''.mkv''\<rparr>
        \<lparr>path_str = ''/in/movie.mp4'', path_suffix = ''.mp4''\<rparr>
        (Some ''libx264'') (Some ''aac'') (Some ''20'') (Some ''fast'') None (Some ''6M'')
        (Some ''10M'') (Some ''192k'') None False None None None) \<inter> set rate_flags = {}"
    by (simp add: supplied_values_def rate_flags_def or_empty_def filter_chain_def truthy_def)
  show ?thesis
    using transcode_rate_control_args [OF m s1, of False False False]
      transcode_rate_control_args [OF m s2, of False False False]
    by (simp add: truthy_def or_empty_def crf_capable_def)
qed

section \<open>The custom preset\<close>

lemma selector_not_fixed: "''-c:v'' \<notin> fixed_tokens" "''-c:a'' \<notin> fixed_tokens"
  by (simp_all add: fixed_tokens_def)

lemma set_video_args_empty: "\<not> truthy vcodec \<Longrightarrow> video_args vcodec crf preset video_bitrate maxrate bufsize = []"
  by (simp add: video_args_def)

lemma set_audio_args_empty: "\<not> truthy acodec \<Longrightarrow> audio_args acodec audio_bitrate = []"
  by (simp add: audio_args_def)

lemma set_video_args:
  "set (video_args vcodec crf preset video_bitrate maxrate bufsize)
   \<subseteq> {''-c:v'', ''-crf'', ''-preset'', ''-b:v'', ''-maxrate'', ''-bufsize'',
       or_empty vcodec, or_empty crf, or_empty preset, or_empty video_bitrate,
       or_empty maxrate, or_empty bufsize}"
  by (auto simp add: video_args_def)

lemma selector_only_in_codec_args:
  assumes "mode \<noteq> ''remux''" and "f = ''-c:v'' \<or> f = ''-c:a''"
    and "f \<notin> set (supplied_values src dst vcodec acodec crf preset video_bitrate maxrate
            bufsize audio_bitrate scale deint extra_filters burn_subs threads)"
  shows "f \<in> set (build_ffmpeg_cmd src dst mode vcodec acodec crf preset video_bitrate maxrate
            bufsize audio_bitrate scale deint extra_filters copy_subs no_subs burn_subs threads
            overwrite)
         \<longleftrightarrow> f \<in> set (video_args vcodec crf preset video_bitrate maxrate bufsize)
             \<or> f \<in> set (audio_args acodec audio_bitrate)"
proof -
  have nf: "f \<notin> fixed_tokens" "f \<noteq> ''-vf''" "f \<noteq> ''-threads''"
    using assms(2) by (auto simp add: fixed_tokens_def)
  have a: "f \<notin> set (base_args overwrite src)"
    using set_base_args [of overwrite src] nf(1) assms(3)
    by (auto simp add: supplied_values_def)
  have b: "f \<notin> set (subtitle_args no_subs copy_subs)"
    using set_subtitle_args [of no_subs copy_subs] nf(1) by blast
  have d: "f \<notin> set (filter_args (filter_chain deint scale extra_filters burn_subs))"
    using set_filter_args [of "filter_chain deint scale extra_filters burn_subs"] nf(2) assms(3)
    by (auto simp add: supplied_values_def)
  have e: "f \<notin> set (default_container_flags (container_of dst))"
    using set_default_container_flags [of "container_of dst"] nf(1) by blast
  have g: "f \<notin> set (thread_args threads)"
    using set_thread_args [of threads] nf(3) assms(3)
    by (auto simp add: supplied_values_def)
  have h: "f \<noteq> path_str dst"
    using assms(3) by (auto simp add: supplied_values_def)
  show ?thesis
    using a b d e g h by (simp add: build_transcode [OF assms(1)])
qed

lemma selector_absent_in_remux:
  assumes "f = ''-c:v'' \<or> f = ''-c:a''"
    and "f \<notin> set (supplied_values src dst vcodec acodec crf preset video_bitrate maxrate
            bufsize audio_bitrate scale deint extra_filters burn_subs threads)"
  shows "f \<notin> set (build_ffmpeg_cmd src dst ''remux'' vcodec acodec crf preset video_bitrate maxrate
            bufsize audio_bitrate scale deint extra_filters copy_subs no_subs burn_subs threads
            overwrite)"
proof -
  have nf: "f \<notin> fixed_tokens"
    using assms(1) by (auto simp add: fixed_tokens_def)
  have p: "f \<noteq> path_str src" "f \<noteq> path_str dst"
    using assms(2) by (auto simp add: supplied_values_def)
  show ?thesis
    using remux_flag_iff [OF nf, of src dst vcodec acodec crf preset video_bitrate maxrate
            bufsize audio_bitrate scale deint extra_filters copy_subs no_subs burn_subs threads
            overwrite] p by simp
qed

lemma video_selector_absent:
  assumes "\<not> truthy vcodec"
    and "''-c:v'' \<notin> set (supplied_values src dst vcodec acodec crf preset video_bitrate maxrate
            bufsize audio_bitrate scale deint extra_filters burn_subs threads)"
  shows "''-c:v'' \<notin> set (build_ffmpeg_cmd src dst mode vcodec acodec crf preset video_bitrate
            maxrate bufsize audio_bitrate scale deint extra_filters copy_subs no_subs burn_subs
            threads overwrite)"
proof (cases "mode = ''remux''")
  case True
  then show ?thesis
    using selector_absent_in_remux [OF _ assms(2), of copy_subs no_subs overwrite] by simp
next
  case False
  have "''-c:v'' \<notin> set (audio_args acodec audio_bitrate)"
    using set_audio_args [of acodec audio_bitrate] assms(2)
    by (auto simp add: supplied_values_def)
  then show ?thesis
    using selector_only_in_codec_args [OF False _ assms(2), of copy_subs no_subs overwrite]
      set_video_args_empty [OF assms(1)]
    by simp
qed

lemma audio_selector_absent:
  assumes "\<not> truthy acodec"
    and "''-c:a'' \<notin> set (supplied_values src dst vcodec acodec crf preset video_bitrate maxrate
            bufsize audio_bitrate scale deint extra_filters burn_subs threads)"
  shows "''-c:a'' \<notin> set (build_ffmpeg_cmd src dst mode vcodec acodec crf preset video_bitrate
            maxrate bufsize audio_bitrate scale deint extra_filters copy_subs no_subs burn_subs
            threads overwrite)"
proof (cases "mode = ''remux''")
  case True
  then show ?thesis
    using selector_absent_in_remux [OF _ assms(2), of copy_subs no_subs overwrite] by simp
next
  case False
  have "''-c:a'' \<notin> set (video_args vcodec crf preset video_bitrate maxrate bufsize)"
    using set_video_args [of vcodec crf preset video_bitrate maxrate bufsize] assms(2)
    by (auto simp add: supplied_values_def)
  then show ?thesis
    using selector_only_in_codec_args [OF False _ assms(2), of copy_subs no_subs overwrite]
      set_audio_args_empty [OF assms(1)]
    by simp
qed

text \<open>
  Claim C1, as stated, lets \<^verbatim>\<open>custom\<close> fall back to the container's default codec.
  The \<^verbatim>\<open>custom\<close> branch assigns the mode only: with no \<^verbatim>\<open>--vcodec\<close> and target
  \<^verbatim>\<open>webm\<close> the resolved video codec stays None although the table holds
  \<^verbatim>\<open>libvpx-vp9\<close>, and the builder then writes no \<^verbatim>\<open>-c:v\<close>.
\<close>

theorem custom_codec_fallback_counterexample:
  "dict_get VCODEC_DEFAULTS ''webm'' ''libx264'' = ''libvpx-vp9''
   \<and> vcodec_use (policy_selector
        \<lparr>args_quality = ''custom'', args_mode = ''transcode'', args_vcodec = None,
           args_acodec = None, args_crf = None, args_preset = None,
           args_audio_bitrate = None\<rparr> ''webm'' (Some ''h264'') (Some ''aac'')) = None
   \<and> ''-c:v'' \<notin> set (build_ffmpeg_cmd \<lparr>path_str = ''/in/movie.mkv'', path_suffix = ''.mkv''\<rparr>
        \<lparr>path_str = ''/in/movie.webm'', path_suffix = ''.webm''\<rparr> ''transcode''
        None None None None None None None None None False None False False None None False)"
  by (simp add: policy_selector_def dict_get_def VCODEC_DEFAULTS_def Let_def
      build_ffmpeg_cmd_def truthy_def or_empty_def default_container_flags_def
      lower_def lower_char_def lstrip_dot_def)

text \<open>
  Claim C1, amended. For quality preset \<^verbatim>\<open>custom\<close> the operating mode is the
  \<^verbatim>\<open>--mode\<close> value as given, and the resolved video codec, audio codec, CRF, preset
  and audio bitrate are the user's values as given: what the user leaves open stays
  open, and no container default is put in its place. The command that \<^verbatim>\<open>main\<close>
  then builds from the resolved values has no \<^verbatim>\<open>-c:v\<close> when the video codec is
  left open, and no \<^verbatim>\<open>-c:a\<close> when the audio codec is left open, in every mode,
  provided no string passed to the builder is itself that option name.
\<close>

theorem custom_policy_verbatim:
  assumes "args_quality a = ''custom''"
  shows "policy_selector a out_ext vcodec acodec
         = \<lparr>effective_mode = args_mode a,
            vcodec_use = args_vcodec a,
            acodec_use = args_acodec a,
            crf_use = args_crf a,
            preset_use = args_preset a,
            abr_use = args_audio_bitrate a\<rparr>
       \<and> (\<not> truthy (args_vcodec a)
            \<and> ''-c:v'' \<notin> set (supplied_values src dst (args_vcodec a) (args_acodec a)
                  (args_crf a) (args_preset a) video_bitrate maxrate bufsize
                  (args_audio_bitrate a) scale deint extra_filters burn_subs threads) \<longrightarrow>
            ''-c:v'' \<notin> set (build_ffmpeg_cmd src dst
                  (effective_mode (policy_selector a out_ext vcodec acodec))
                  (vcodec_use (policy_selector a out_ext vcodec acodec))
                  (acodec_use (policy_selector a out_ext vcodec acodec))
                  (crf_use (policy_selector a out_ext vcodec acodec))
                  (preset_use (policy_selector a out_ext vcodec acodec))
                  video_bitrate maxrate bufsize
                  (abr_use (policy_selector a out_ext vcodec acodec))
                  scale deint extra_filters copy_subs no_subs burn_subs threads overwrite))
       \<and> (\<not> truthy (args_acodec a)
            \<and> ''-c:a'' \<notin> set (supplied_values src dst (args_vcodec a) (args_acodec a)
                  (args_crf a) (args_preset a) video_bitrate maxrate bufsize
                  (args_audio_bitrate a) scale deint extra_filters burn_subs threads) \<longrightarrow>
            ''-c:a'' \<notin> set (build_ffmpeg_cmd src dst
                  (effective_mode (policy_selector a out_ext vcodec acodec))
                  (vcodec_use (policy_selector a out_ext vcodec acodec))
                  (acodec_use (policy_selector a out_ext vcodec acodec))
                  (crf_use (policy_selector a out_ext vcodec acodec))
                  (preset_use (policy_selector a out_ext vcodec acodec))
                  video_bitrate maxrate bufsize
                  (abr_use (policy_selector a out_ext vcodec acodec))
                  scale deint extra_filters copy_subs no_subs burn_subs threads overwrite))"
proof -
  have p: "policy_selector a out_ext vcodec acodec
         = \<lparr>effective_mode = args_mode a,
            vcodec_use = args_vcodec a,
            acodec_use = args_acodec a,
            crf_use = args_crf a,
            preset_use = args_preset a,
            abr_use = args_audio_bitrate a\<rparr>"
    using assms by (simp add: policy_selector_def Let_def)
  show ?thesis
    unfolding p
    using video_selector_absent [of "args_vcodec a" src dst "args_acodec a" "args_crf a"
        "args_preset a" video_bitrate maxrate bufsize "args_audio_bitrate a" scale deint
        extra_filters burn_subs threads "args_mode a" copy_subs no_subs overwrite]
      audio_selector_absent [of "args_acodec a" src dst "args_vcodec a" "args_crf a"
        "args_preset a" video_bitrate maxrate bufsize "args_audio_bitrate a" scale deint
        extra_filters burn_subs threads "args_mode a" copy_subs no_subs overwrite]
    by simp
qed

theorem custom_policy_verbatim_witness:
  "policy_selector
        \<lparr>args_quality = ''custom'', args_mode = ''transcode'', args_vcodec = None,
           args_acodec = None, args_crf = Some ''18'', args_preset = None,
           args_audio_bitrate = Some ''192k''\<rparr> ''webm'' (Some ''h264'') (Some ''aac'')
     = \<lparr>effective_mode = ''transcode'', vcodec_use = None, acodec_use = None,
        crf_use = Some ''18'', preset_use = None, abr_use = Some ''192k''\<rparr>
   \<and> ''-c:v'' \<notin> set (build_ffmpeg_cmd \<lparr>path_str = ''/in/movie.mkv'', path_suffix = ''.mkv''\<rparr>
        \<lparr>path_str = ''/in/movie.webm'', path_suffix = ''.webm''\<rparr> ''transcode''
        None None (Some ''18'') None None None None (Some ''192k'') None False None False False
        None None False)
   \<and> ''-c:a'' \<notin> set (build_ffmpeg_cmd \<lparr>path_str = ''/in/movie.mkv'', path_suffix = ''.mkv''\<rparr>
        \<lparr>path_str = ''/in/movie.webm'', path_suffix = ''.webm''\<rparr> ''transcode''
        None None (Some ''18'') None None None None (Some ''192k'') None False None False False
        None None False)"
proof -
  have q: "args_quality \<lparr>args_quality = ''custom'', args_mode = ''transcode'',
           args_vcodec = None, args_acodec = None, args_crf = Some ''18'', args_preset = None,
           args_audio_bitrate = Some ''192k''\<rparr> = ''custom''"
    by simp
  have s: "set (supplied_values \<lparr>path_str = ''/in/movie.mkv'', path_suffix = ''.mkv''\<rparr>
        \<lparr>path_str = ''/in/movie.webm'', path_suffix = ''.webm''\<rparr>
        None None (Some ''18'') None None None None (Some ''192k'') None False None None None)
        \<inter> {''-c:v'', ''-c:a''} = {}"
    by (simp add: supplied_values_def or_empty_def filter_chain_def truthy_def)
  note t = custom_policy_verbatim [OF q, of "''webm''" "Some ''h264''" "Some ''aac''"
        "\<lparr>path_str = ''/in/movie.mkv'', path_suffix = ''.mkv''\<rparr>"
        "\<lparr>path_str = ''/in/movie.webm'', path_suffix = ''.webm''\<rparr>"
        None None None None False None None None False False False]
  have p: "policy_selector
        \<lparr>args_quality = ''custom'', args_mode = ''transcode'', args_vcodec = None,
           args_acodec = None, args_crf = Some ''18'', args_preset = None,
           args_audio_bitrate = Some ''192k''\<rparr> ''webm'' (Some ''h264'') (Some ''aac'')
     = \<lparr>effective_mode = ''transcode'', vcodec_use = None, acodec_use = None,
        crf_use = Some ''18'', preset_use = None, abr_use = Some ''192k''\<rparr>"
    using t by simp
  show ?thesis
    using s t unfolding p by (simp add: truthy_def or_empty_def)
qed

end
